theory Spec2Isabelle
  imports Main
begin

unbundle bit_operations_syntax

section \<open>Library functions used by the node\<close>

subsection \<open>SHA-256 (hashlib.sha256), FIPS 180-4\<close>

text \<open>
  32-bit words are kept as integers in the range \<open>0 ..< 2 ^ 32\<close>; every addition is
  followed by \<open>w32\<close>, which writes out the wrap-around.
\<close>

definition w32 :: "int \<Rightarrow> int" where
  "w32 x = take_bit 32 x"

definition rotr :: "nat \<Rightarrow> int \<Rightarrow> int" where
  "rotr n x = drop_bit n x OR w32 (push_bit (32 - n) x)"

definition ch :: "int \<Rightarrow> int \<Rightarrow> int \<Rightarrow> int" where
  "ch x y z = (x AND y) XOR ((0xffffffff XOR x) AND z)"

definition maj :: "int \<Rightarrow> int \<Rightarrow> int \<Rightarrow> int" where
  "maj x y z = (x AND y) XOR (x AND z) XOR (y AND z)"

definition bsig0 :: "int \<Rightarrow> int" where
  "bsig0 x = rotr 2 x XOR rotr 13 x XOR rotr 22 x"

definition bsig1 :: "int \<Rightarrow> int" where
  "bsig1 x = rotr 6 x XOR rotr 11 x XOR rotr 25 x"

definition ssig0 :: "int \<Rightarrow> int" where
  "ssig0 x = rotr 7 x XOR rotr 18 x XOR drop_bit 3 x"

definition ssig1 :: "int \<Rightarrow> int" where
  "ssig1 x = rotr 17 x XOR rotr 19 x XOR drop_bit 10 x"

text \<open>
  The round constants (the first 32 bits of the fractional parts of the cube roots of
  the first 64 primes) and the initial state (the same of the square roots of the first
  8 primes).
\<close>

definition sha_K :: "int list" where
  "sha_K =
    [1116352408, 1899447441, 3049323471, 3921009573, 961987163, 1508970993, 2453635748, 2870763221,
     3624381080, 310598401, 607225278, 1426881987, 1925078388, 2162078206, 2614888103, 3248222580,
     3835390401, 4022224774, 264347078, 604807628, 770255983, 1249150122, 1555081692, 1996064986,
     2554220882, 2821834349, 2952996808, 3210313671, 3336571891, 3584528711, 113926993, 338241895,
     666307205, 773529912, 1294757372, 1396182291, 1695183700, 1986661051, 2177026350, 2456956037,
     2730485921, 2820302411, 3259730800, 3345764771, 3516065817, 3600352804, 4094571909, 275423344,
     430227734, 506948616, 659060556, 883997877, 958139571, 1322822218, 1537002063, 1747873779,
     1955562222, 2024104815, 2227730452, 2361852424, 2428436474, 2756734187, 3204031479, 3329325298]"

type_synonym sha_state = "int \<times> int \<times> int \<times> int \<times> int \<times> int \<times> int \<times> int"

definition sha_H0 :: sha_state where
  "sha_H0 = (1779033703, 3144134277, 1013904242, 2773480762, 1359893119, 2600822924, 528734635, 1541459225)"

text \<open>
  One round. The message schedule is carried as a sliding window of the last sixteen
  words: its head is the word of this round, and the word sixteen rounds ahead is
  appended.
\<close>

fun sha_round :: "sha_state \<times> int list \<Rightarrow> int \<Rightarrow> sha_state \<times> int list" where
  "sha_round ((a, b, c, d, e, f, g, h), ws) k =
     (let t1 = w32 (h + bsig1 e + ch e f g + k + ws ! 0);
          t2 = w32 (bsig0 a + maj a b c)
      in ((w32 (t1 + t2), a, b, c, w32 (d + t1), e, f, g),
          tl ws @ [w32 (ssig1 (ws ! 14) + ws ! 9 + ssig0 (ws ! 1) + ws ! 0)]))"

fun add_state :: "sha_state \<Rightarrow> sha_state \<Rightarrow> sha_state" where
  "add_state (a, b, c, d, e, f, g, h) (a', b', c', d', e', f', g', h') =
     (w32 (a + a'), w32 (b + b'), w32 (c + c'), w32 (d + d'),
      w32 (e + e'), w32 (f + f'), w32 (g + g'), w32 (h + h'))"

definition compress :: "sha_state \<Rightarrow> int list \<Rightarrow> sha_state" where
  "compress st blk = add_state st (fst (foldl sha_round (st, blk) sha_K))"

fun sha_blocks :: "sha_state \<Rightarrow> int list \<Rightarrow> sha_state" where
  "sha_blocks st [] = st"
| "sha_blocks st (w # ws) = sha_blocks (compress st (take 16 (w # ws))) (drop 15 ws)"

text \<open>Padding: the byte 0x80, zero bytes up to 56 modulo 64, the bit length on 8 bytes.\<close>

definition pad :: "int list \<Rightarrow> int list" where
  "pad m = (let n = length m in
     m @ [0x80] @ replicate ((119 - n mod 64) mod 64) 0 @
     map (\<lambda>i. take_bit 8 (drop_bit (8 * i) (8 * int n))) [7, 6, 5, 4, 3, 2, 1, 0])"

fun be_words :: "int list \<Rightarrow> int list" where
  "be_words (a # b # c # d # bs) = (((a * 256 + b) * 256 + c) * 256 + d) # be_words bs"
| "be_words _ = []"

definition hex_digit :: "nat \<Rightarrow> char" where
  "hex_digit n = ''0123456789abcdef'' ! n"

definition hex32 :: "int \<Rightarrow> string" where
  "hex32 w = map (\<lambda>i. hex_digit (nat (take_bit 4 (drop_bit (4 * i) w)))) [7, 6, 5, 4, 3, 2, 1, 0]"

fun hexdigest :: "sha_state \<Rightarrow> string" where
  "hexdigest (a, b, c, d, e, f, g, h) = concat (map hex32 [a, b, c, d, e, f, g, h])"

text \<open>\<open>sha256(s.encode()).hexdigest()\<close> for a string of code points below 256 that
  \<open>json.dumps\<close> has already made pure ASCII.\<close>

definition sha256 :: "string \<Rightarrow> string" where
  "sha256 s = hexdigest (sha_blocks sha_H0 (be_words (pad (map of_char s))))"

subsection \<open>Python values that travel as JSON\<close>

text \<open>
  What \<open>request.get_json()\<close> and \<open>response.json()\<close> hand to the node, and what
  \<open>json.dumps\<close> accepts: \<open>None\<close>, booleans, unbounded integers, floats, strings, lists
  and dictionaries with string keys. A float is carried as its \<open>repr\<close>, the text that
  \<open>json.dumps\<close> emits for it. A dictionary is an association list in insertion order;
  a well-formed one has distinct keys. Strings are lists of code points below 256.
\<close>

datatype json =
    JNull
  | JBool bool
  | JInt int
  | JFloat string
  | JStr string
  | JList "json list"
  | JDict "(string \<times> json) list"

datatype py_error =
    AttributeError
  | TypeError
  | KeyError
  | IndexError
  | TamperedDump
  | RequestFailed

text \<open>
  \<open>AttributeError\<close>, \<open>TypeError\<close>, \<open>KeyError\<close> and \<open>IndexError\<close> are Python's own.
  \<open>TamperedDump\<close> is \<open>Exception("The chain dump is tampered!!")\<close>. \<open>RequestFailed\<close>
  stands for whatever \<open>requests\<close> raises when a peer cannot be reached or its answer
  is not the expected JSON.
\<close>

subsection \<open>json.dumps(value, sort\_keys=True)\<close>

function dec_nat :: "int \<Rightarrow> string" where
  "dec_nat n = (if n < 10 then [''0123456789'' ! nat n]
                else dec_nat (n div 10) @ [''0123456789'' ! nat (n mod 10)])"
  by pat_completeness auto
termination
  by (relation "measure nat") auto

definition dec_int :: "int \<Rightarrow> string" where
  "dec_int n = (if n < 0 then CHR ''-'' # dec_nat (- n) else dec_nat n)"

text \<open>The encoder's \<open>ensure_ascii\<close> escapes (\<open>py_encode_basestring_ascii\<close>).\<close>

definition escape_char :: "char \<Rightarrow> string" where
  "escape_char c =
     (let n = (of_char c :: nat) in
      if c = CHR 0x22 then [CHR 0x5C, CHR 0x22]
      else if c = CHR 0x5C then [CHR 0x5C, CHR 0x5C]
      else if c = CHR 0x0A then [CHR 0x5C, CHR ''n'']
      else if c = CHR 0x0D then [CHR 0x5C, CHR ''r'']
      else if c = CHR 0x09 then [CHR 0x5C, CHR ''t'']
      else if c = CHR 0x08 then [CHR 0x5C, CHR ''b'']
      else if c = CHR 0x0C then [CHR 0x5C, CHR ''f'']
      else if 32 \<le> n \<and> n \<le> 126 then [c]
      else [CHR 0x5C, CHR ''u'', CHR ''0'', CHR ''0'', hex_digit (n div 16), hex_digit (n mod 16)])"

definition quote :: "string \<Rightarrow> string" where
  "quote s = [CHR 0x22] @ concat (map escape_char s) @ [CHR 0x22]"

text \<open>Python compares strings by code point, lexicographically.\<close>

fun str_le :: "string \<Rightarrow> string \<Rightarrow> bool" where
  "str_le [] ys = True"
| "str_le (x # xs) [] = False"
| "str_le (x # xs) (y # ys) =
     (if x = y then str_le xs ys else (of_char x :: nat) < of_char y)"

fun insert_item :: "string \<times> 'a \<Rightarrow> (string \<times> 'a) list \<Rightarrow> (string \<times> 'a) list" where
  "insert_item kv [] = [kv]"
| "insert_item kv (kv' # rest) =
     (if str_le (fst kv) (fst kv') then kv # kv' # rest else kv' # insert_item kv rest)"

definition sort_items :: "(string \<times> 'a) list \<Rightarrow> (string \<times> 'a) list" where
  "sort_items kvs = foldr insert_item kvs []"

fun join :: "string \<Rightarrow> string list \<Rightarrow> string" where
  "join sep [] = []"
| "join sep [x] = x"
| "join sep (x # y # ys) = x @ sep @ join sep (y # ys)"

fun json_dumps :: "json \<Rightarrow> string" where
  "json_dumps JNull = ''null''"
| "json_dumps (JBool b) = (if b then ''true'' else ''false'')"
| "json_dumps (JInt n) = dec_int n"
| "json_dumps (JFloat r) = r"
| "json_dumps (JStr s) = quote s"
| "json_dumps (JList xs) = ''['' @ join '', '' (map json_dumps xs) @ '']''"
| "json_dumps (JDict kvs) =
     ''{'' @ join '', ''
        (map (\<lambda>kv. quote (fst kv) @ '': '' @ snd kv)
           (sort_items (map (\<lambda>kv. (fst kv, json_dumps (snd kv))) kvs))) @ ''}''"

section \<open>Block\<close>

text \<open>
  The five attributes set by \<open>__init__\<close>, and \<open>hash\<close>, which is absent until
  \<open>create_genesis_block\<close> or \<open>add_block\<close> assigns it and which \<open>check_chain_validity\<close>
  deletes with \<open>delattr\<close>. The five come from the constructor's caller, for a peer's
  block straight from its JSON, so they are JSON values. \<open>hash\<close> is only ever assigned
  the result of \<open>compute_hash\<close> or a proof that \<open>is_valid_proof\<close> has compared equal
  to one, so it is a string.
\<close>

record Block =
  index :: json
  transactions :: json
  timestamp :: json
  previous_hash :: json
  nonce :: json
  hash :: "string option"

text \<open>\<open>self.__dict__\<close>, in insertion order.\<close>

definition block_dict :: "Block \<Rightarrow> (string \<times> json) list" where
  "block_dict b =
     [(''index'', index b), (''transactions'', transactions b), (''timestamp'', timestamp b),
      (''previous_hash'', previous_hash b), (''nonce'', nonce b)]
     @ (case hash b of None \<Rightarrow> [] | Some h \<Rightarrow> [(''hash'', JStr h)])"

definition compute_hash :: "Block \<Rightarrow> string" where
  "compute_hash b = sha256 (json_dumps (JDict (block_dict b)))"

definition genesis_fields :: Block where
  "genesis_fields =
     \<lparr>index = JInt 0, transactions = JList [], timestamp = JInt 0,
      previous_hash = JStr ''0'', nonce = JInt 0, hash = None\<rparr>"

section \<open>Blockchain\<close>

record Blockchain =
  unconfirmed_transactions :: "json list"
  chain :: "Block list"

text \<open>
  \<open>Blockchain.difficulty\<close> is a class attribute that every use reads at run time. The
  model passes its value explicitly (the parameter \<open>d\<close> below); the source sets it to 4.
\<close>

definition difficulty :: nat where
  "difficulty = 4"

definition new_blockchain :: Blockchain where
  "new_blockchain = \<lparr>unconfirmed_transactions = [], chain = []\<rparr>"

definition genesis_block :: Block where
  "genesis_block = genesis_fields\<lparr>hash := Some (compute_hash genesis_fields)\<rparr>"

definition create_genesis_block :: "Blockchain \<Rightarrow> Blockchain" where
  "create_genesis_block bc = bc\<lparr>chain := chain bc @ [genesis_block]\<rparr>"

text \<open>\<open>self.chain[-1]\<close> raises IndexError on an empty chain.\<close>

definition last_block :: "Blockchain \<Rightarrow> py_error + Block" where
  "last_block bc = (if chain bc = [] then Inl IndexError else Inr (last (chain bc)))"

fun startswith :: "string \<Rightarrow> string \<Rightarrow> bool" where
  "startswith s [] = True"
| "startswith [] (p # ps) = False"
| "startswith (c # cs) (p # ps) = (c = p \<and> startswith cs ps)"

text \<open>
  The claimed hash of a peer's block is whatever its JSON holds under \<open>hash\<close>; only a
  string has \<open>startswith\<close>. \<open>and\<close> evaluates \<open>compute_hash\<close> only after the prefix test,
  and \<open>compute_hash\<close> cannot raise on JSON values.
\<close>

fun is_valid_proof :: "nat \<Rightarrow> Block \<Rightarrow> json \<Rightarrow> py_error + bool" where
  "is_valid_proof d block (JStr block_hash) =
     Inr (startswith block_hash (replicate d CHR ''0'') \<and> block_hash = compute_hash block)"
| "is_valid_proof d block _ = Inl AttributeError"

text \<open>
  \<open>add_block\<close> returns its boolean and the ledger after the call. \<open>block.hash = proof\<close>
  updates the very object that is appended. The last case below cannot occur, since
  \<open>is_valid_proof\<close> returns a boolean for a string only.
\<close>

definition add_block :: "nat \<Rightarrow> Blockchain \<Rightarrow> Block \<Rightarrow> json \<Rightarrow> py_error + bool \<times> Blockchain" where
  "add_block d bc block proof =
     (case last_block bc of
        Inl e \<Rightarrow> Inl e
      | Inr tip \<Rightarrow>
          (case hash tip of
             None \<Rightarrow> Inl AttributeError
           | Some prev \<Rightarrow>
               if JStr prev \<noteq> previous_hash block then Inr (False, bc)
               else (case is_valid_proof d block proof of
                       Inl e \<Rightarrow> Inl e
                     | Inr ok \<Rightarrow>
                         if \<not> ok then Inr (False, bc)
                         else (case proof of
                                 JStr p \<Rightarrow>
                                   Inr (True, bc\<lparr>chain := chain bc @ [block\<lparr>hash := Some p\<rparr>]\<rparr>)
                               | _ \<Rightarrow> Inl AttributeError))))"

text \<open>
  \<open>proof_of_work\<close> writes \<open>block.nonce\<close> in place and returns the digest only. The model
  returns the digest together with the block as the search leaves it; \<open>None\<close> is a
  search that never ends.
\<close>

partial_function (option) pow_search :: "nat \<Rightarrow> Block \<Rightarrow> int \<Rightarrow> (string \<times> Block) option" where
  "pow_search d block n =
     (if startswith (compute_hash (block\<lparr>nonce := JInt n\<rparr>)) (replicate d CHR ''0'')
      then Some (compute_hash (block\<lparr>nonce := JInt n\<rparr>), block\<lparr>nonce := JInt n\<rparr>)
      else pow_search d block (n + 1))"

definition proof_of_work :: "nat \<Rightarrow> Block \<Rightarrow> (string \<times> Block) option" where
  "proof_of_work d block = pow_search d block 0"

text \<open>What holds of a result \<open>r\<close> of the search started at the nonce \<open>k\<close>: it is the digest
  of the block at the first nonce from \<open>k\<close> on whose digest has the prefix.\<close>

definition pow_post :: "nat \<Rightarrow> Block \<Rightarrow> int \<Rightarrow> string \<times> Block \<Rightarrow> bool" where
  "pow_post d block k r \<longleftrightarrow>
     (\<exists>n. k \<le> n \<and> snd r = block\<lparr>nonce := JInt n\<rparr> \<and> fst r = compute_hash (snd r) \<and>
        startswith (fst r) (replicate d CHR ''0'') \<and>
        (\<forall>j. k \<le> j \<and> j < n \<longrightarrow>
           \<not> startswith (compute_hash (block\<lparr>nonce := JInt j\<rparr>)) (replicate d CHR ''0'')))"

definition add_new_transaction :: "Blockchain \<Rightarrow> json \<Rightarrow> Blockchain" where
  "add_new_transaction bc transaction =
     bc\<lparr>unconfirmed_transactions := unconfirmed_transactions bc @ [transaction]\<rparr>"

text \<open>
  \<open>check_chain_validity\<close> on a list of Block objects. It deletes each block's \<open>hash\<close>
  before recomputing the digest and restores it only after the block has passed, so the
  model returns the blocks as the call leaves them. When \<open>block.hash\<close> is missing the
  AttributeError comes before any deletion and the blocks are as they were. The elements
  of the list are taken to be distinct objects.
\<close>

fun check_chain_loop :: "nat \<Rightarrow> string \<Rightarrow> Block list \<Rightarrow> py_error + bool \<times> Block list" where
  "check_chain_loop d prev [] = Inr (True, [])"
| "check_chain_loop d prev (block # rest) =
     (case hash block of
        None \<Rightarrow> Inl AttributeError
      | Some block_hash \<Rightarrow>
          (case is_valid_proof d (block\<lparr>hash := None\<rparr>) (JStr block_hash) of
             Inl e \<Rightarrow> Inl e
           | Inr ok \<Rightarrow>
               if \<not> ok \<or> JStr prev \<noteq> previous_hash block
               then Inr (False, block\<lparr>hash := None\<rparr> # rest)
               else (case check_chain_loop d block_hash rest of
                       Inl e \<Rightarrow> Inl e
                     | Inr (result, rest') \<Rightarrow> Inr (result, block # rest'))))"

definition check_chain_validity :: "nat \<Rightarrow> Block list \<Rightarrow> py_error + bool \<times> Block list" where
  "check_chain_validity d blocks = check_chain_loop d ''0'' blocks"

text \<open>
  \<open>last_block.index + 1\<close>: integer addition on an int or a bool, float addition on a
  float, TypeError on a string, a list, a dictionary or \<open>None\<close>. Floats are carried as
  their \<open>repr\<close> and this embedding does not compute with them: Python's float addition
  of 1 is the parameter \<open>float_add_one\<close>, from the \<open>repr\<close> of \<open>x\<close> to that of \<open>x + 1\<close>.
\<close>

fun py_add_one :: "(string \<Rightarrow> string) \<Rightarrow> json \<Rightarrow> py_error + json" where
  "py_add_one float_add_one (JInt n) = Inr (JInt (n + 1))"
| "py_add_one float_add_one (JBool b) = Inr (JInt (if b then 2 else 1))"
| "py_add_one float_add_one (JFloat r) = Inr (JFloat (float_add_one r))"
| "py_add_one float_add_one _ = Inl TypeError"

text \<open>
  \<open>mine\<close>, with \<open>time.time()\<close> as the parameter \<open>now\<close>. It returns its boolean, or the
  exception that ended it, and the ledger after the call; \<open>None\<close> is a search that never
  ends. \<open>mine_finish\<close> is its last step (lines 150 to 154): the result of \<open>add_block\<close> is
  dropped, the pool is emptied and True is returned whatever it was.
\<close>

definition mine_finish ::
    "nat \<Rightarrow> Blockchain \<Rightarrow> Block \<Rightarrow> string \<Rightarrow> (py_error + bool) \<times> Blockchain" where
  "mine_finish d bc new_block proof =
     (case add_block d bc new_block (JStr proof) of
        Inl e \<Rightarrow> (Inl e, bc)
      | Inr (added, bc') \<Rightarrow> (Inr True, bc'\<lparr>unconfirmed_transactions := []\<rparr>))"

definition mine ::
    "nat \<Rightarrow> (string \<Rightarrow> string) \<Rightarrow> json \<Rightarrow> Blockchain \<Rightarrow> ((py_error + bool) \<times> Blockchain) option" where
  "mine d float_add_one now bc =
     (if unconfirmed_transactions bc = [] then Some (Inr False, bc)
      else (case last_block bc of
              Inl e \<Rightarrow> Some (Inl e, bc)
            | Inr tip \<Rightarrow>
                (case py_add_one float_add_one (index tip) of
                   Inl e \<Rightarrow> Some (Inl e, bc)
                 | Inr i \<Rightarrow>
                     (case hash tip of
                        None \<Rightarrow> Some (Inl AttributeError, bc)
                      | Some h \<Rightarrow>
                          (case proof_of_work d
                                  \<lparr>index = i, transactions = JList (unconfirmed_transactions bc),
                                   timestamp = now, previous_hash = JStr h, nonce = JInt 0,
                                   hash = None\<rparr> of
                             None \<Rightarrow> None
                           | Some (proof, new_block) \<Rightarrow>
                               Some (mine_finish d bc new_block proof))))))"

section \<open>The node\<close>

text \<open>Iterating a Python value: a list gives its elements, a dictionary its keys, a
  string its characters; anything else is not iterable.\<close>

fun py_iter :: "json \<Rightarrow> py_error + json list" where
  "py_iter (JList xs) = Inr xs"
| "py_iter (JDict kvs) = Inr (map (\<lambda>kv. JStr (fst kv)) kvs)"
| "py_iter (JStr s) = Inr (map (\<lambda>c. JStr [c]) s)"
| "py_iter _ = Inl TypeError"

text \<open>\<open>value[key]\<close> with a string key: a lookup in a dictionary, TypeError elsewhere.\<close>

fun py_getitem :: "json \<Rightarrow> string \<Rightarrow> py_error + json" where
  "py_getitem (JDict kvs) k = (case map_of kvs k of None \<Rightarrow> Inl KeyError | Some v \<Rightarrow> Inr v)"
| "py_getitem _ k = Inl TypeError"

text \<open>The Block built from one element of a dump, and the proof read from it.\<close>

definition bind_err :: "py_error + 'a \<Rightarrow> ('a \<Rightarrow> py_error + 'b) \<Rightarrow> py_error + 'b" where
  "bind_err r f = (case r of Inl e \<Rightarrow> Inl e | Inr x \<Rightarrow> f x)"

definition block_from_data :: "json \<Rightarrow> py_error + Block \<times> json" where
  "block_from_data block_data =
     bind_err (py_getitem block_data ''index'') (\<lambda>i.
     bind_err (py_getitem block_data ''transactions'') (\<lambda>txs.
     bind_err (py_getitem block_data ''timestamp'') (\<lambda>ts.
     bind_err (py_getitem block_data ''previous_hash'') (\<lambda>ph.
     bind_err (py_getitem block_data ''nonce'') (\<lambda>n.
     bind_err (py_getitem block_data ''hash'') (\<lambda>proof.
       Inr (\<lparr>index = i, transactions = txs, timestamp = ts, previous_hash = ph,
             nonce = n, hash = None\<rparr>, proof)))))))"

fun dump_loop :: "nat \<Rightarrow> Blockchain \<Rightarrow> json list \<Rightarrow> py_error + Blockchain" where
  "dump_loop d bc [] = Inr bc"
| "dump_loop d bc (block_data # rest) =
     (case block_from_data block_data of
        Inl e \<Rightarrow> Inl e
      | Inr (block, proof) \<Rightarrow>
          (case add_block d bc block proof of
             Inl e \<Rightarrow> Inl e
           | Inr (added, bc') \<Rightarrow>
               if \<not> added then Inl TamperedDump else dump_loop d bc' rest))"

text \<open>\<open>enumerate\<close> with \<open>if idx == 0: continue\<close> skips the first element.\<close>

definition create_chain_from_dump :: "nat \<Rightarrow> json \<Rightarrow> py_error + Blockchain" where
  "create_chain_from_dump d chain_dump =
     (case py_iter chain_dump of
        Inl e \<Rightarrow> Inl e
      | Inr elems \<Rightarrow> dump_loop d (create_genesis_block new_blockchain) (drop 1 elems))"

text \<open>
  The global \<open>blockchain\<close> is a Blockchain object until \<open>consensus\<close> assigns it a raw
  list from a peer's JSON.
\<close>

datatype node_chain = Ledger Blockchain | Raw json

text \<open>
  \<open>register_with_existing_node\<close> from the moment the registration request has returned:
  the status code and what \<open>response.json()\<close> gives. The model follows the global
  \<open>blockchain\<close>: it returns its value after the call, and \<open>Inr ()\<close> once line 281 has
  assigned it, or when the status is not 200. \<open>peers.update\<close>, which follows, changes
  \<open>peers\<close> only and is not modelled.
\<close>

definition register_with_existing_node ::
    "nat \<Rightarrow> node_chain \<Rightarrow> int \<Rightarrow> py_error + json \<Rightarrow> (py_error + unit) \<times> node_chain" where
  "register_with_existing_node d blockchain status_code response_json =
     (if status_code = 200 then
        (case response_json of
           Inl e \<Rightarrow> (Inl e, blockchain)
         | Inr body \<Rightarrow>
             (case py_getitem body ''chain'' of
                Inl e \<Rightarrow> (Inl e, blockchain)
              | Inr chain_dump \<Rightarrow>
                  (case create_chain_from_dump d chain_dump of
                     Inl e \<Rightarrow> (Inl e, blockchain)
                   | Inr generated \<Rightarrow> (Inr (), Ledger generated))))
      else (Inr (), blockchain))"

text \<open>
  \<open>check_chain_validity\<close> as \<open>consensus\<close> calls it: on the \<open>chain\<close> entry of a peer's
  JSON, not on Block objects. The loop body starts with \<open>block.hash\<close>, an attribute that
  no dictionary, list, string, number, boolean or \<open>None\<close> has, so the first element
  raises AttributeError; a value that is not iterable raises TypeError; only an empty
  list, dictionary or string gets through the loop.
\<close>

fun check_chain_validity_raw :: "nat \<Rightarrow> json \<Rightarrow> py_error + bool" where
  "check_chain_validity_raw d peer_chain =
     (case py_iter peer_chain of
        Inl e \<Rightarrow> Inl e
      | Inr [] \<Rightarrow> Inr True
      | Inr (block # rest) \<Rightarrow> Inl AttributeError)"

text \<open>Truth value of a Python value (\<open>if longest_chain:\<close>).\<close>

fun py_truthy :: "json \<Rightarrow> bool" where
  "py_truthy JNull = False"
| "py_truthy (JBool b) = b"
| "py_truthy (JInt n) = (n \<noteq> 0)"
| "py_truthy (JFloat r) = (r \<noteq> ''0.0'' \<and> r \<noteq> ''-0.0'')"
| "py_truthy (JStr s) = (s \<noteq> [])"
| "py_truthy (JList xs) = (xs \<noteq> [])"
| "py_truthy (JDict kvs) = (kvs \<noteq> [])"

text \<open>\<open>len(value)\<close>.\<close>

fun py_len :: "json \<Rightarrow> py_error + nat" where
  "py_len (JList xs) = Inr (length xs)"
| "py_len (JDict kvs) = Inr (length kvs)"
| "py_len (JStr s) = Inr (length s)"
| "py_len _ = Inl TypeError"

text \<open>
  What one peer's \<open>requests.get\<close> brings back: an exception, or the \<open>length\<close> and
  \<open>chain\<close> entries of its JSON. \<open>length\<close> is an integer, as \<open>get_chain\<close> emits it; it is
  the peer's word, not the length of \<open>chain\<close>.
\<close>

type_synonym peer_fetch = "py_error + int \<times> json"

text \<open>The \<open>for node in peers\<close> loop, over the fetches in the order the set is iterated.\<close>

fun consensus_loop ::
    "nat \<Rightarrow> peer_fetch list \<Rightarrow> int \<Rightarrow> json option \<Rightarrow> py_error + int \<times> json option" where
  "consensus_loop d [] current_len longest_chain = Inr (current_len, longest_chain)"
| "consensus_loop d (Inl e # rest) current_len longest_chain = Inl e"
| "consensus_loop d (Inr (len, peer_chain) # rest) current_len longest_chain =
     (if len > current_len then
        (case check_chain_validity_raw d peer_chain of
           Inl e \<Rightarrow> Inl e
         | Inr valid \<Rightarrow>
             if valid then consensus_loop d rest len (Some peer_chain)
             else consensus_loop d rest current_len longest_chain)
      else consensus_loop d rest current_len longest_chain)"

text \<open>\<open>consensus\<close> returns its boolean, or the exception that ended it, and the global
  \<open>blockchain\<close> after the call.\<close>

definition consensus ::
    "nat \<Rightarrow> node_chain \<Rightarrow> peer_fetch list \<Rightarrow> (py_error + bool) \<times> node_chain" where
  "consensus d blockchain fetches =
     (case blockchain of
        Raw v \<Rightarrow> (Inl AttributeError, blockchain)
      | Ledger bc \<Rightarrow>
          (case consensus_loop d fetches (int (length (chain bc))) None of
             Inl e \<Rightarrow> (Inl e, blockchain)
           | Inr (current_len, None) \<Rightarrow> (Inr False, blockchain)
           | Inr (current_len, Some longest_chain) \<Rightarrow>
               if py_truthy longest_chain then (Inr True, Raw longest_chain)
               else (Inr False, blockchain)))"

section \<open>Notions used in the statements\<close>

text \<open>A chain is linked when every block but the first names, as its \<open>previous_hash\<close>,
  the hash its predecessor carries.\<close>

fun linked :: "Block list \<Rightarrow> bool" where
  "linked [] = True"
| "linked [b] = True"
| "linked (a # b # bs) =
     ((case hash a of None \<Rightarrow> False | Some h \<Rightarrow> previous_hash b = JStr h) \<and> linked (b # bs))"

text \<open>
  The specification's canonical digest: the digest of the five fields \<open>index\<close>,
  \<open>transactions\<close>, \<open>timestamp\<close>, \<open>previous_hash\<close> and \<open>nonce\<close>, laid out in a fixed order
  (that of the sorted field names), without \<open>hash\<close>.
\<close>

definition canonical_body :: "json \<Rightarrow> json \<Rightarrow> json \<Rightarrow> json \<Rightarrow> json \<Rightarrow> string" where
  "canonical_body i txs ts ph n =
     ''\"index\": '' @ json_dumps i @ '', \"nonce\": '' @ json_dumps n @
     '', \"previous_hash\": '' @ json_dumps ph @ '', \"timestamp\": '' @ json_dumps ts @
     '', \"transactions\": '' @ json_dumps txs"

definition canonical_digest :: "json \<Rightarrow> json \<Rightarrow> json \<Rightarrow> json \<Rightarrow> json \<Rightarrow> string" where
  "canonical_digest i txs ts ph n = sha256 (''{'' @ canonical_body i txs ts ph n @ ''}'')"

section \<open>Concrete ledgers\<close>

text \<open>
  The record of the specification's scenario, the candidate that \<open>mine\<close> builds on the
  genesis block from a pool holding that record at the time 1700055792.5, and a block
  with the genesis fields and the nonce 25163.
\<close>

definition example_tx :: json where
  "example_tx = JDict [(''author'', JStr ''a''), (''content'', JStr ''hi'')]"

definition example_candidate :: Block where
  "example_candidate =
     \<lparr>index = JInt 1, transactions = JList [example_tx], timestamp = JFloat ''1700055792.5'',
      previous_hash = JStr ''6dbf23122cb5046cc5c0c1b245c75f8e43c59ca8ffeac292715e5078e631d0c9'',
      nonce = JInt 0, hash = None\<rparr>"

definition example_ledger :: Blockchain where
  "example_ledger = add_new_transaction (create_genesis_block new_blockchain) example_tx"

definition mined_genesis :: Block where
  "mined_genesis =
     genesis_fields\<lparr>nonce := JInt 25163,
       hash := Some ''000032e43be950a2ed50c2806e1eca61f37bd8a42ca18720e18bab6c7a73da34''\<rparr>"

text \<open>
  A block as a peer may post it to \<open>/add_block\<close>: sealed on the genesis block (nonce
  27505), with the string \<open>"1"\<close> as its index; and the example ledger once \<open>add_block\<close>
  has accepted it. No block in the runs below has a float index, so the float addition
  handed to \<open>mine\<close> is never applied there; \<open>float_add_unused\<close> stands in for it.
\<close>

definition string_index_block :: Block where
  "string_index_block =
     \<lparr>index = JStr ''1'', transactions = JList [], timestamp = JInt 0,
      previous_hash = JStr ''6dbf23122cb5046cc5c0c1b245c75f8e43c59ca8ffeac292715e5078e631d0c9'',
      nonce = JInt 27505, hash = None\<rparr>"

definition string_index_ledger :: Blockchain where
  "string_index_ledger =
     \<lparr>unconfirmed_transactions = [example_tx],
      chain = [genesis_block, string_index_block
        \<lparr>hash := Some ''00005509ac97bbe8983d77ba27d6a413c2e2e6dda42258e095f9fca401f9a5f4''\<rparr>]\<rparr>"


text \<open>
  Dumps as a peer's \<open>/chain\<close> answer holds them, each block with its \<open>hash\<close>: the genesis
  block, the block mined above, and a second mined block (nonce 106073) in which the
  content of the record was changed from \<open>yo\<close> to \<open>no\<close> after sealing.
\<close>

definition genesis_block_data :: json where
  "genesis_block_data =
     JDict [(''index'', JInt 0), (''transactions'', JList []), (''timestamp'', JInt 0),
            (''previous_hash'', JStr ''0''), (''nonce'', JInt 0),
            (''hash'', JStr ''6dbf23122cb5046cc5c0c1b245c75f8e43c59ca8ffeac292715e5078e631d0c9'')]"

definition example_block_data :: json where
  "example_block_data =
     JDict [(''index'', JInt 1), (''transactions'', JList [example_tx]),
            (''timestamp'', JFloat ''1700055792.5''),
            (''previous_hash'', JStr ''6dbf23122cb5046cc5c0c1b245c75f8e43c59ca8ffeac292715e5078e631d0c9''),
            (''nonce'', JInt 1),
            (''hash'', JStr ''0000a67697cf66cf1a5f5403f97425b8298815a74e4da0eaccaa3540922857cb'')]"

definition tampered_block :: Block where
  "tampered_block =
     \<lparr>index = JInt 2,
      transactions = JList [JDict [(''author'', JStr ''b''), (''content'', JStr ''no'')]],
      timestamp = JFloat ''1700055800.25'',
      previous_hash = JStr ''0000a67697cf66cf1a5f5403f97425b8298815a74e4da0eaccaa3540922857cb'',
      nonce = JInt 106073, hash = None\<rparr>"

definition tampered_block_data :: json where
  "tampered_block_data =
     JDict [(''index'', index tampered_block), (''transactions'', transactions tampered_block),
            (''timestamp'', timestamp tampered_block),
            (''previous_hash'', previous_hash tampered_block), (''nonce'', nonce tampered_block),
            (''hash'', JStr ''00005d86cce0ebd641f9d1e2ba6005a992ba3f654cf8a6de33dde7869d08c85f'')]"

definition good_dump :: json where
  "good_dump = JList [genesis_block_data, example_block_data]"

definition tampered_dump :: json where
  "tampered_dump = JList [genesis_block_data, example_block_data, tampered_block_data]"

section \<open>Test vectors\<close>

text \<open>Digests evaluated in the logic; each agrees with hashlib.\<close>

lemma sha256_abc:
  "sha256 ''abc'' = ''ba7816bf8f01cfea414140de5dae2223b00361a396177a9cb410ff61f20015ad''"
  by code_simp

lemma genesis_digest:
  "compute_hash genesis_fields =
     ''6dbf23122cb5046cc5c0c1b245c75f8e43c59ca8ffeac292715e5078e631d0c9''"
  by code_simp

lemma genesis_block_digest:
  "compute_hash genesis_block =
     ''93166fe10ac31537bf38b033a034c019096bc2822ccb8a16c98f3482a5a082c7''"
  by code_simp

lemma candidate_digest_0:
  "compute_hash (example_candidate\<lparr>nonce := JInt 0\<rparr>) =
     ''0f0e21d90836186213286cf8dd241576643ec2f3b149c71bd18c97e765d6e6d4''"
  by code_simp

lemma candidate_digest_1:
  "compute_hash (example_candidate\<lparr>nonce := JInt 1\<rparr>) =
     ''0000a67697cf66cf1a5f5403f97425b8298815a74e4da0eaccaa3540922857cb''"
  by code_simp

lemma mined_genesis_digest:
  "compute_hash (mined_genesis\<lparr>hash := None\<rparr>) =
     ''000032e43be950a2ed50c2806e1eca61f37bd8a42ca18720e18bab6c7a73da34''"
  by code_simp

lemma tampered_block_digest:
  "compute_hash tampered_block =
     ''4e473d9deed0fd16aab04f28e4d89aceda86c5b24af3dec0419b6035763179a3''"
  by code_simp


section \<open>Consensus\<close>

text \<open>
  A peer chain that gets through \<open>check_chain_validity\<close> as \<open>consensus\<close> calls it is
  empty, and an empty value is false in \<open>if longest_chain:\<close>.
\<close>

lemma raw_valid_not_truthy:
  "check_chain_validity_raw d c = Inr True \<Longrightarrow> \<not> py_truthy c"
  by (cases c) (auto split: list.splits)

lemma consensus_loop_falsy:
  "consensus_loop d fetches cur lc = Inr (cur', lc') \<Longrightarrow>
   (\<And>c. lc = Some c \<Longrightarrow> \<not> py_truthy c) \<Longrightarrow> lc' = Some c' \<Longrightarrow> \<not> py_truthy c'"
proof (induction d fetches cur lc rule: consensus_loop.induct)
  case (1 d current_len longest_chain)
  then show ?case by simp
next
  case (2 d e rest current_len longest_chain)
  then show ?case by simp
next
  case (3 d len peer_chain rest current_len longest_chain)
  show ?case
  proof (cases "len > current_len")
    case False
    with 3 show ?thesis by simp
  next
    case True
    show ?thesis
    proof (cases "check_chain_validity_raw d peer_chain")
      case (Inl e)
      with True "3.prems" show ?thesis by simp
    next
      case (Inr valid)
      show ?thesis
      proof (cases valid)
        case True
        note v = this
        have "\<not> py_truthy peer_chain"
          using Inr v raw_valid_not_truthy[of d peer_chain] by simp
        with "3.IH"(1)[OF \<open>len > current_len\<close> Inr v] "3.prems" \<open>len > current_len\<close> Inr v
        show ?thesis by simp
      next
        case False
        with "3.IH"(2)[OF \<open>len > current_len\<close> Inr False] "3.prems" \<open>len > current_len\<close> Inr
        show ?thesis by simp
      qed
    qed
  qed
qed

lemma consensus_keeps_blockchain:
  "snd (consensus d blockchain fetches) = blockchain"
proof (cases blockchain)
  case (Raw v)
  then show ?thesis by (simp add: consensus_def)
next
  case (Ledger bc)
  show ?thesis
  proof (cases "consensus_loop d fetches (int (length (chain bc))) None")
    case (Inl e)
    with Ledger show ?thesis by (simp add: consensus_def)
  next
    case (Inr r)
    obtain cur' lc' where r: "r = (cur', lc')" by (cases r)
    show ?thesis
    proof (cases lc')
      case None
      with Ledger Inr r show ?thesis by (simp add: consensus_def)
    next
      case (Some c')
      have "\<not> py_truthy c'"
        using consensus_loop_falsy[of d fetches _ None cur' lc' c'] Inr r Some by simp
      with Ledger Inr r Some show ?thesis by (simp add: consensus_def)
    qed
  qed
qed

text \<open>
  Two runs on a node that holds the genesis block only: a peer that reports a chain of
  length 5 and sends a non-empty one ends \<open>consensus\<close> with an AttributeError; a peer
  that reports the length 7 and sends an empty chain is passed over.
\<close>

lemma consensus_examples:
  "consensus difficulty (Ledger (create_genesis_block new_blockchain))
     [Inr (5, JList [genesis_block_data, example_block_data])] =
     (Inl AttributeError, Ledger (create_genesis_block new_blockchain))"
  "consensus difficulty (Ledger (create_genesis_block new_blockchain)) [Inr (7, JList [])] =
     (Inr False, Ledger (create_genesis_block new_blockchain))"
  by (simp_all add: consensus_def create_genesis_block_def new_blockchain_def)

text \<open>
  C1. Whatever the peers answer and in whatever order they are asked, after \<open>consensus\<close>
  the global \<open>blockchain\<close> is what it was, or it is a peer chain that the chain validator
  accepted and that is strictly longer than the chain held before. (By
  \<open>consensus_keeps_blockchain\<close> it is always the first: no peer chain is ever adopted.)
\<close>

theorem consensus_monotone:
  "snd (consensus d blockchain fetches) = blockchain \<or>
   (\<exists>bc c n. blockchain = Ledger bc \<and> snd (consensus d blockchain fetches) = Raw c \<and>
      fst (consensus d blockchain fetches) = Inr True \<and>
      check_chain_validity_raw d c = Inr True \<and> py_len c = Inr n \<and> length (chain bc) < n)"
  using consensus_keeps_blockchain by blast



section \<open>Proof of work\<close>

lemma startswith_take:
  "startswith s p \<longleftrightarrow> take (length p) s = p"
  by (induction s p rule: startswith.induct) auto

lemma pow_search_sound:
  assumes "pow_search d block k = Some r"
  shows "pow_post d block k r"
proof (rule pow_search.raw_induct[where P = pow_post, OF _ assms])
  fix f d block n r
  assume IH: "\<And>d block n r. f d block n = Some r \<Longrightarrow> pow_post d block n r"
    and eq: "(if startswith (compute_hash (block\<lparr>nonce := JInt n\<rparr>)) (replicate d CHR ''0'')
              then Some (compute_hash (block\<lparr>nonce := JInt n\<rparr>), block\<lparr>nonce := JInt n\<rparr>)
              else f d block (n + 1)) = Some r"
  show "pow_post d block n r"
  proof (cases "startswith (compute_hash (block\<lparr>nonce := JInt n\<rparr>)) (replicate d CHR ''0'')")
    case True
    with eq have "r = (compute_hash (block\<lparr>nonce := JInt n\<rparr>), block\<lparr>nonce := JInt n\<rparr>)" by simp
    with True show ?thesis unfolding pow_post_def by (intro exI[of _ n]) auto
  next
    case False
    with eq have "f d block (n + 1) = Some r" by simp
    from IH[OF this] obtain m where m: "n + 1 \<le> m" "snd r = block\<lparr>nonce := JInt m\<rparr>"
      "fst r = compute_hash (snd r)" "startswith (fst r) (replicate d CHR ''0'')"
      "\<forall>j. n + 1 \<le> j \<and> j < m \<longrightarrow>
          \<not> startswith (compute_hash (block\<lparr>nonce := JInt j\<rparr>)) (replicate d CHR ''0'')"
      unfolding pow_post_def by blast
    have "\<forall>j. n \<le> j \<and> j < m \<longrightarrow>
          \<not> startswith (compute_hash (block\<lparr>nonce := JInt j\<rparr>)) (replicate d CHR ''0'')"
    proof (intro allI impI)
      fix j assume "n \<le> j \<and> j < m"
      then have "j = n \<or> (n + 1 \<le> j \<and> j < m)" by auto
      with False m(5) show "\<not> startswith (compute_hash (block\<lparr>nonce := JInt j\<rparr>)) (replicate d CHR ''0'')"
        by blast
    qed
    with m show ?thesis unfolding pow_post_def by (intro exI[of _ m]) simp
  qed
qed

lemma pow_search_finds:
  "startswith (compute_hash (block\<lparr>nonce := JInt (k + int m)\<rparr>)) (replicate d CHR ''0'') \<Longrightarrow>
   (\<forall>j<m. \<not> startswith (compute_hash (block\<lparr>nonce := JInt (k + int j)\<rparr>)) (replicate d CHR ''0'')) \<Longrightarrow>
   pow_search d block k =
     Some (compute_hash (block\<lparr>nonce := JInt (k + int m)\<rparr>), block\<lparr>nonce := JInt (k + int m)\<rparr>)"
proof (induction m arbitrary: k)
  case 0
  then show ?case by (subst pow_search.simps) simp
next
  case (Suc m)
  have e: "k + int (Suc j) = k + 1 + int j" for j by simp
  have nk: "\<not> startswith (compute_hash (block\<lparr>nonce := JInt k\<rparr>)) (replicate d CHR ''0'')"
    using Suc.prems(2)[rule_format, of 0] by simp
  have a: "startswith (compute_hash (block\<lparr>nonce := JInt (k + 1 + int m)\<rparr>)) (replicate d CHR ''0'')"
    using Suc.prems(1) unfolding e .
  have b: "\<forall>j<m. \<not> startswith (compute_hash (block\<lparr>nonce := JInt (k + 1 + int j)\<rparr>)) (replicate d CHR ''0'')"
  proof (intro allI impI)
    fix j assume "j < m"
    then have "Suc j < Suc m" by simp
    from Suc.prems(2)[rule_format, OF this]
    show "\<not> startswith (compute_hash (block\<lparr>nonce := JInt (k + 1 + int j)\<rparr>)) (replicate d CHR ''0'')"
      unfolding e .
  qed
  have "pow_search d block (k + 1) =
     Some (compute_hash (block\<lparr>nonce := JInt (k + 1 + int m)\<rparr>), block\<lparr>nonce := JInt (k + 1 + int m)\<rparr>)"
    by (rule Suc.IH[OF a b])
  then have "pow_search d block (k + 1) =
     Some (compute_hash (block\<lparr>nonce := JInt (k + int (Suc m))\<rparr>), block\<lparr>nonce := JInt (k + int (Suc m))\<rparr>)"
    unfolding e .
  with nk show ?case by (subst pow_search.simps) simp
qed



lemma zeros_difficulty: "replicate difficulty CHR ''0'' = ''0000''"
  by (simp add: difficulty_def numeral_eq_Suc)

lemma pow_search_returns:
  "pow_search d block k = Some (h, block') \<Longrightarrow>
   \<exists>n. k \<le> n \<and> block' = block\<lparr>nonce := JInt n\<rparr> \<and> h = compute_hash (block\<lparr>nonce := JInt n\<rparr>) \<and>
       startswith h (replicate d CHR ''0'') \<and>
       (\<forall>j. k \<le> j \<and> j < n \<longrightarrow>
          \<not> startswith (compute_hash (block\<lparr>nonce := JInt j\<rparr>)) (replicate d CHR ''0''))"
  using pow_search_sound[of d block k "(h, block')"] unfolding pow_post_def by auto

lemma pow_example:
  "proof_of_work difficulty example_candidate =
     Some (''0000a67697cf66cf1a5f5403f97425b8298815a74e4da0eaccaa3540922857cb'',
           example_candidate\<lparr>nonce := JInt 1\<rparr>)"
proof -
  have a: "startswith (compute_hash (example_candidate\<lparr>nonce := JInt (0 + int 1)\<rparr>))
             (replicate difficulty CHR ''0'')"
    by (simp add: candidate_digest_1 zeros_difficulty)
  have b: "\<forall>j<1. \<not> startswith (compute_hash (example_candidate\<lparr>nonce := JInt (0 + int j)\<rparr>))
             (replicate difficulty CHR ''0'')"
    by (simp add: candidate_digest_0 zeros_difficulty)
  from pow_search_finds[OF a b] show ?thesis
    by (simp add: proof_of_work_def candidate_digest_1)
qed

text \<open>
  C9. Whenever the proof-of-work search returns, for any candidate and difficulty \<open>d\<close>,
  the first \<open>d\<close> characters of the returned digest are all \<open>0\<close>, and the digest is
  \<open>compute_hash\<close> of the candidate at the nonce the search settled on.
\<close>

theorem sealing_correct:
  "proof_of_work d block = Some (h, block') \<Longrightarrow>
   take d h = replicate d CHR ''0'' \<and>
   (\<exists>n\<ge>0. block' = block\<lparr>nonce := JInt n\<rparr> \<and> h = compute_hash (block\<lparr>nonce := JInt n\<rparr>))"
proof -
  assume "proof_of_work d block = Some (h, block')"
  then have "pow_search d block 0 = Some (h, block')" by (simp add: proof_of_work_def)
  from pow_search_returns[OF this] obtain n where n: "0 \<le> n" "block' = block\<lparr>nonce := JInt n\<rparr>"
    "h = compute_hash (block\<lparr>nonce := JInt n\<rparr>)" "startswith h (replicate d CHR ''0'')"
    by blast
  from n(4) have "take d h = replicate d CHR ''0''" by (simp add: startswith_take)
  with n show ?thesis by blast
qed

theorem sealing_correct_witness:
  "proof_of_work difficulty example_candidate =
     Some (''0000a67697cf66cf1a5f5403f97425b8298815a74e4da0eaccaa3540922857cb'',
           example_candidate\<lparr>nonce := JInt 1\<rparr>) \<and>
   take difficulty ''0000a67697cf66cf1a5f5403f97425b8298815a74e4da0eaccaa3540922857cb'' =
     replicate difficulty CHR ''0'' \<and>
   (\<exists>n\<ge>0. example_candidate\<lparr>nonce := JInt 1\<rparr> = example_candidate\<lparr>nonce := JInt n\<rparr> \<and>
      ''0000a67697cf66cf1a5f5403f97425b8298815a74e4da0eaccaa3540922857cb'' =
        compute_hash (example_candidate\<lparr>nonce := JInt n\<rparr>))"
  using sealing_correct[OF pow_example] pow_example by simp

text \<open>
  C8, as stated, fails: the candidate that \<open>mine\<close> builds on the genesis block at the time
  1700055792.5 enters the search with the nonce 0 and leaves it with the nonce 1.
\<close>

theorem pow_mutates_nonce_counterexample:
  "proof_of_work difficulty example_candidate =
     Some (''0000a67697cf66cf1a5f5403f97425b8298815a74e4da0eaccaa3540922857cb'',
           example_candidate\<lparr>nonce := JInt 1\<rparr>) \<and>
   nonce example_candidate = JInt 0 \<and>
   nonce (example_candidate\<lparr>nonce := JInt 1\<rparr>) \<noteq> nonce example_candidate"
  using pow_example by (simp add: example_candidate_def)

text \<open>
  C8, amended. The search writes the candidate's nonce in place and nothing else, and
  returns the digest. When it returns, the candidate's nonce is the first nonce from 0
  on whose digest has the required prefix, the returned digest is the digest of the
  candidate at that nonce, \<open>index\<close>, \<open>transactions\<close>, \<open>timestamp\<close> and \<open>previous_hash\<close>
  are unchanged, and \<open>hash\<close> is as absent or present as before: the search does not
  assign it.
\<close>

theorem pow_writes_nonce_only:
  "proof_of_work d block = Some (h, block') \<Longrightarrow>
   (\<exists>n\<ge>0. block' = block\<lparr>nonce := JInt n\<rparr> \<and>
      h = compute_hash (block\<lparr>nonce := JInt n\<rparr>) \<and>
      startswith (compute_hash (block\<lparr>nonce := JInt n\<rparr>)) (replicate d CHR ''0'') \<and>
      (\<forall>j. 0 \<le> j \<and> j < n \<longrightarrow>
         \<not> startswith (compute_hash (block\<lparr>nonce := JInt j\<rparr>)) (replicate d CHR ''0''))) \<and>
   index block' = index block \<and> transactions block' = transactions block \<and>
   timestamp block' = timestamp block \<and> previous_hash block' = previous_hash block \<and>
   hash block' = hash block"
proof -
  assume "proof_of_work d block = Some (h, block')"
  then have "pow_search d block 0 = Some (h, block')" by (simp add: proof_of_work_def)
  from pow_search_returns[OF this] obtain n where n: "0 \<le> n" "block' = block\<lparr>nonce := JInt n\<rparr>"
    "h = compute_hash (block\<lparr>nonce := JInt n\<rparr>)" "startswith h (replicate d CHR ''0'')"
    "\<forall>j. 0 \<le> j \<and> j < n \<longrightarrow>
       \<not> startswith (compute_hash (block\<lparr>nonce := JInt j\<rparr>)) (replicate d CHR ''0'')"
    by blast
  from n(2) have f: "index block' = index block" "transactions block' = transactions block"
    "timestamp block' = timestamp block" "previous_hash block' = previous_hash block"
    "hash block' = hash block"
    by simp_all
  from n have "\<exists>n\<ge>0. block' = block\<lparr>nonce := JInt n\<rparr> \<and>
      h = compute_hash (block\<lparr>nonce := JInt n\<rparr>) \<and>
      startswith (compute_hash (block\<lparr>nonce := JInt n\<rparr>)) (replicate d CHR ''0'') \<and>
      (\<forall>j. 0 \<le> j \<and> j < n \<longrightarrow>
         \<not> startswith (compute_hash (block\<lparr>nonce := JInt j\<rparr>)) (replicate d CHR ''0''))"
    by (intro exI[of _ n]) simp
  with f show ?thesis by simp
qed

theorem pow_writes_nonce_only_witness:
  "proof_of_work difficulty example_candidate =
     Some (''0000a67697cf66cf1a5f5403f97425b8298815a74e4da0eaccaa3540922857cb'',
           example_candidate\<lparr>nonce := JInt 1\<rparr>) \<and>
   nonce (example_candidate\<lparr>nonce := JInt 1\<rparr>) = JInt 1 \<and>
   ''0000a67697cf66cf1a5f5403f97425b8298815a74e4da0eaccaa3540922857cb'' =
     compute_hash (example_candidate\<lparr>nonce := JInt 1\<rparr>) \<and>
   startswith (compute_hash (example_candidate\<lparr>nonce := JInt 1\<rparr>))
     (replicate difficulty CHR ''0'') \<and>
   \<not> startswith (compute_hash (example_candidate\<lparr>nonce := JInt 0\<rparr>))
     (replicate difficulty CHR ''0'') \<and>
   index (example_candidate\<lparr>nonce := JInt 1\<rparr>) = index example_candidate \<and>
   transactions (example_candidate\<lparr>nonce := JInt 1\<rparr>) = transactions example_candidate \<and>
   timestamp (example_candidate\<lparr>nonce := JInt 1\<rparr>) = timestamp example_candidate \<and>
   previous_hash (example_candidate\<lparr>nonce := JInt 1\<rparr>) = previous_hash example_candidate \<and>
   hash (example_candidate\<lparr>nonce := JInt 1\<rparr>) = hash example_candidate"
proof -
  from pow_writes_nonce_only[OF pow_example] obtain n where n: "0 \<le> n"
    "example_candidate\<lparr>nonce := JInt 1\<rparr> = example_candidate\<lparr>nonce := JInt n\<rparr>"
    "''0000a67697cf66cf1a5f5403f97425b8298815a74e4da0eaccaa3540922857cb'' =
       compute_hash (example_candidate\<lparr>nonce := JInt n\<rparr>)"
    "startswith (compute_hash (example_candidate\<lparr>nonce := JInt n\<rparr>))
       (replicate difficulty CHR ''0'')"
    "\<forall>j. 0 \<le> j \<and> j < n \<longrightarrow>
       \<not> startswith (compute_hash (example_candidate\<lparr>nonce := JInt j\<rparr>))
            (replicate difficulty CHR ''0'')"
    and f: "index (example_candidate\<lparr>nonce := JInt 1\<rparr>) = index example_candidate"
      "transactions (example_candidate\<lparr>nonce := JInt 1\<rparr>) = transactions example_candidate"
      "timestamp (example_candidate\<lparr>nonce := JInt 1\<rparr>) = timestamp example_candidate"
      "previous_hash (example_candidate\<lparr>nonce := JInt 1\<rparr>) = previous_hash example_candidate"
      "hash (example_candidate\<lparr>nonce := JInt 1\<rparr>) = hash example_candidate"
    by blast
  from n(2) have "nonce (example_candidate\<lparr>nonce := JInt 1\<rparr>) =
      nonce (example_candidate\<lparr>nonce := JInt n\<rparr>)"
    by (rule arg_cong)
  then have n1: "n = 1" by simp
  from n(5) n1 have "\<not> startswith (compute_hash (example_candidate\<lparr>nonce := JInt 0\<rparr>))
       (replicate difficulty CHR ''0'')"
    by simp
  with n(3,4) n1 f pow_example show ?thesis by simp
qed

section \<open>Appending a block\<close>

lemma add_block_cases:
  assumes "chain bc \<noteq> []" and "hash (last (chain bc)) = Some tip_hash"
  shows "add_block d bc block (JStr claimed) =
     (if startswith claimed (replicate d CHR ''0'') \<and> claimed = compute_hash block \<and>
         previous_hash block = JStr tip_hash
      then Inr (True, bc\<lparr>chain := chain bc @ [block\<lparr>hash := Some claimed\<rparr>]\<rparr>)
      else Inr (False, bc))"
  using assms by (auto simp: add_block_def last_block_def)

text \<open>
  C3. On a ledger whose chain is non-empty and whose tip carries a hash, \<open>add_block\<close>
  with a block and a claimed hash returns False and leaves the ledger as it was when the
  claimed hash lacks the zero prefix of the difficulty, when it differs from the digest
  recomputed by \<open>compute_hash\<close>, or when the block's \<open>previous_hash\<close> is not the tip's
  hash; otherwise it returns True, the block is appended with \<open>hash\<close> set to the claimed
  hash, and it is the new tip.
\<close>

theorem append_gating:
  assumes "chain bc \<noteq> []" and "hash (last (chain bc)) = Some tip_hash"
  shows "(\<not> startswith claimed (replicate d CHR ''0'') \<or> claimed \<noteq> compute_hash block \<or>
          previous_hash block \<noteq> JStr tip_hash
          \<longrightarrow> add_block d bc block (JStr claimed) = Inr (False, bc)) \<and>
         (startswith claimed (replicate d CHR ''0'') \<and> claimed = compute_hash block \<and>
          previous_hash block = JStr tip_hash
          \<longrightarrow> add_block d bc block (JStr claimed) =
                Inr (True, bc\<lparr>chain := chain bc @ [block\<lparr>hash := Some claimed\<rparr>]\<rparr>) \<and>
              last_block (bc\<lparr>chain := chain bc @ [block\<lparr>hash := Some claimed\<rparr>]\<rparr>) =
                Inr (block\<lparr>hash := Some claimed\<rparr>))"
  using add_block_cases[OF assms, of d block claimed] by (auto simp: last_block_def)

lemma example_ledger_simps:
  "chain example_ledger = [genesis_block]"
  "unconfirmed_transactions example_ledger = [example_tx]"
  by (simp_all add: example_ledger_def add_new_transaction_def create_genesis_block_def
      new_blockchain_def)

lemma genesis_block_hash:
  "hash genesis_block = Some ''6dbf23122cb5046cc5c0c1b245c75f8e43c59ca8ffeac292715e5078e631d0c9''"
  by (simp add: genesis_block_def genesis_digest)

theorem append_gating_witness:
  "add_block difficulty example_ledger (example_candidate\<lparr>nonce := JInt 1\<rparr>)
     (JStr ''0000a67697cf66cf1a5f5403f97425b8298815a74e4da0eaccaa3540922857cb'') =
     Inr (True, example_ledger\<lparr>chain := [genesis_block, example_candidate
        \<lparr>nonce := JInt 1,
         hash := Some ''0000a67697cf66cf1a5f5403f97425b8298815a74e4da0eaccaa3540922857cb''\<rparr>]\<rparr>) \<and>
   add_block difficulty example_ledger (example_candidate\<lparr>nonce := JInt 0\<rparr>)
     (JStr ''0f0e21d90836186213286cf8dd241576643ec2f3b149c71bd18c97e765d6e6d4'') =
     Inr (False, example_ledger) \<and>
   add_block difficulty example_ledger (example_candidate\<lparr>nonce := JInt 1\<rparr>)
     (JStr ''0000000000000000000000000000000000000000000000000000000000000000'') =
     Inr (False, example_ledger) \<and>
   add_block difficulty example_ledger (example_candidate\<lparr>nonce := JInt 1, previous_hash := JStr ''0''\<rparr>)
     (JStr ''0000a67697cf66cf1a5f5403f97425b8298815a74e4da0eaccaa3540922857cb'') =
     Inr (False, example_ledger)"
proof -
  have c: "chain example_ledger \<noteq> []" by (simp add: example_ledger_simps)
  have t: "hash (last (chain example_ledger)) =
      Some ''6dbf23122cb5046cc5c0c1b245c75f8e43c59ca8ffeac292715e5078e631d0c9''"
    by (simp add: example_ledger_simps genesis_block_hash)
  have p: "previous_hash (example_candidate\<lparr>nonce := JInt n\<rparr>) =
      JStr ''6dbf23122cb5046cc5c0c1b245c75f8e43c59ca8ffeac292715e5078e631d0c9''" for n
    by (simp add: example_candidate_def)
  show ?thesis
    using append_gating[OF c t, of "''0000a67697cf66cf1a5f5403f97425b8298815a74e4da0eaccaa3540922857cb''"
        difficulty "example_candidate\<lparr>nonce := JInt 1\<rparr>"]
      append_gating[OF c t, of "''0f0e21d90836186213286cf8dd241576643ec2f3b149c71bd18c97e765d6e6d4''"
        difficulty "example_candidate\<lparr>nonce := JInt 0\<rparr>"]
      append_gating[OF c t, of "''0000000000000000000000000000000000000000000000000000000000000000''"
        difficulty "example_candidate\<lparr>nonce := JInt 1\<rparr>"]
      append_gating[OF c t, of "''0000a67697cf66cf1a5f5403f97425b8298815a74e4da0eaccaa3540922857cb''"
        difficulty "example_candidate\<lparr>nonce := JInt 1, previous_hash := JStr ''0''\<rparr>"]
    by (simp add: p candidate_digest_0 candidate_digest_1 zeros_difficulty example_ledger_simps)
qed


section \<open>Mining\<close>



text \<open>On a tip whose index is no number, \<open>mine\<close> raises and the ledger is as it was.\<close>

lemma mine_raises_on_index:
  "unconfirmed_transactions bc \<noteq> [] \<Longrightarrow> chain bc \<noteq> [] \<Longrightarrow>
   py_add_one float_add_one (index (last (chain bc))) = Inl e \<Longrightarrow>
   mine d float_add_one now bc = Some (Inl e, bc)"
  by (simp add: mine_def last_block_def)




text \<open>The same run raises whatever float addition is handed to \<open>mine\<close>.\<close>

lemma mine_raises_on_string_index:
  "mine difficulty float_add_one now string_index_ledger =
     Some (Inl TypeError, string_index_ledger)"
  by (intro mine_raises_on_index)
     (simp_all add: string_index_ledger_def string_index_block_def)





section \<open>Rebuilding a chain from a peer's dump\<close>

lemma add_block_True:
  assumes "add_block d bc block proof = Inr (True, bc')"
  shows "\<exists>h p. chain bc \<noteq> [] \<and> hash (last (chain bc)) = Some h \<and> previous_hash block = JStr h \<and>
           proof = JStr p \<and> bc' = bc\<lparr>chain := chain bc @ [block\<lparr>hash := Some p\<rparr>]\<rparr>"
  using assms
  by (auto simp: add_block_def last_block_def split: if_splits sum.splits option.splits json.splits)

lemma linked_snoc:
  "xs \<noteq> [] \<Longrightarrow> linked xs \<Longrightarrow> hash (last xs) = Some h \<Longrightarrow> previous_hash b = JStr h \<Longrightarrow>
   linked (xs @ [b])"
  by (induction xs rule: linked.induct) (auto split: option.splits)

lemma dump_loop_chain:
  "dump_loop d bc xs = Inr bc' \<Longrightarrow> chain bc \<noteq> [] \<Longrightarrow> linked (chain bc) \<Longrightarrow>
   (\<exists>rest. chain bc' = chain bc @ rest \<and> length rest = length xs) \<and> linked (chain bc') \<and>
   unconfirmed_transactions bc' = unconfirmed_transactions bc"
proof (induction xs arbitrary: bc)
  case Nil
  then show ?case by simp
next
  case (Cons x xs)
  from Cons.prems(1) obtain block claimed where bd: "block_from_data x = Inr (block, claimed)"
    by (cases "block_from_data x") (auto split: prod.splits)
  from Cons.prems(1) bd obtain added bc1 where ab: "add_block d bc block claimed = Inr (added, bc1)"
    by (cases "add_block d bc block claimed") (auto split: prod.splits)
  from Cons.prems(1) bd ab have added: "added" and rest: "dump_loop d bc1 xs = Inr bc'"
    by (auto split: if_splits)
  from add_block_True[OF ab[unfolded eqTrueI[OF added]]] obtain h p where
    hp: "hash (last (chain bc)) = Some h" "previous_hash block = JStr h"
      "bc1 = bc\<lparr>chain := chain bc @ [block\<lparr>hash := Some p\<rparr>]\<rparr>"
    by blast
  have l1: "linked (chain bc1)"
    using linked_snoc[OF Cons.prems(2) Cons.prems(3) hp(1), of "block\<lparr>hash := Some p\<rparr>"] hp
    by simp
  have n1: "chain bc1 \<noteq> []" using hp by simp
  from Cons.IH[OF rest n1 l1] obtain rest' where
    r: "chain bc' = chain bc1 @ rest'" "length rest' = length xs" "linked (chain bc')"
      "unconfirmed_transactions bc' = unconfirmed_transactions bc1"
    by blast
  have "chain bc' = chain bc @ (block\<lparr>hash := Some p\<rparr> # rest')" using r(1) hp(3) by simp
  moreover have "length (block\<lparr>hash := Some p\<rparr> # rest') = length (x # xs)" using r(2) by simp
  ultimately have "\<exists>rest. chain bc' = chain bc @ rest \<and> length rest = length (x # xs)" by blast
  with r(3) r(4) hp(3) show ?case by simp
qed

lemma dump_loop_append:
  "dump_loop d bc (xs @ ys) =
     (case dump_loop d bc xs of Inl e \<Rightarrow> Inl e | Inr bc' \<Rightarrow> dump_loop d bc' ys)"
  by (induction xs arbitrary: bc) (auto split: sum.splits prod.splits)

lemma genesis_block_fields:
  "index genesis_block = JInt 0" "transactions genesis_block = JList []"
  "timestamp genesis_block = JInt 0" "previous_hash genesis_block = JStr ''0''"
  "nonce genesis_block = JInt 0"
  "hash genesis_block = Some (compute_hash (genesis_block\<lparr>hash := None\<rparr>))"
  by (simp_all add: genesis_block_def genesis_fields_def)

lemma example_block_from_data:
  "block_from_data example_block_data =
     Inr (example_candidate\<lparr>nonce := JInt 1\<rparr>,
          JStr ''0000a67697cf66cf1a5f5403f97425b8298815a74e4da0eaccaa3540922857cb'')"
  by (simp add: block_from_data_def example_block_data_def bind_err_def example_candidate_def)

lemma tampered_block_from_data:
  "block_from_data tampered_block_data =
     Inr (tampered_block,
          JStr ''00005d86cce0ebd641f9d1e2ba6005a992ba3f654cf8a6de33dde7869d08c85f'')"
  by (simp add: block_from_data_def tampered_block_data_def bind_err_def tampered_block_def)

lemma dump_loop_example:
  "dump_loop difficulty (create_genesis_block new_blockchain) [example_block_data] =
     Inr \<lparr>unconfirmed_transactions = [],
          chain = [genesis_block, example_candidate
            \<lparr>nonce := JInt 1,
             hash := Some ''0000a67697cf66cf1a5f5403f97425b8298815a74e4da0eaccaa3540922857cb''\<rparr>]\<rparr>"
proof -
  have c: "chain (create_genesis_block new_blockchain) \<noteq> []"
    by (simp add: create_genesis_block_def)
  have t: "hash (last (chain (create_genesis_block new_blockchain))) =
      Some ''6dbf23122cb5046cc5c0c1b245c75f8e43c59ca8ffeac292715e5078e631d0c9''"
    by (simp add: create_genesis_block_def genesis_block_hash)
  have p: "previous_hash (example_candidate\<lparr>nonce := JInt 1\<rparr>) =
      JStr ''6dbf23122cb5046cc5c0c1b245c75f8e43c59ca8ffeac292715e5078e631d0c9''"
    by (simp add: example_candidate_def)
  have "add_block difficulty (create_genesis_block new_blockchain)
      (example_candidate\<lparr>nonce := JInt 1\<rparr>)
      (JStr ''0000a67697cf66cf1a5f5403f97425b8298815a74e4da0eaccaa3540922857cb'') =
      Inr (True, (create_genesis_block new_blockchain)
        \<lparr>chain := chain (create_genesis_block new_blockchain) @
           [example_candidate\<lparr>nonce := JInt 1,
              hash := Some ''0000a67697cf66cf1a5f5403f97425b8298815a74e4da0eaccaa3540922857cb''\<rparr>]\<rparr>)"
    by (simp add: add_block_cases[OF c t] p candidate_digest_1 zeros_difficulty)
  then show ?thesis
    by (simp add: example_block_from_data create_genesis_block_def new_blockchain_def)
qed

lemma good_dump_result:
  "create_chain_from_dump difficulty good_dump =
     Inr \<lparr>unconfirmed_transactions = [],
          chain = [genesis_block, example_candidate
            \<lparr>nonce := JInt 1,
             hash := Some ''0000a67697cf66cf1a5f5403f97425b8298815a74e4da0eaccaa3540922857cb''\<rparr>]\<rparr>"
  using dump_loop_example by (simp add: create_chain_from_dump_def good_dump_def)

text \<open>
  C10. Whatever the dump, a chain that \<open>create_chain_from_dump\<close> returns starts with the
  locally generated genesis block (index 0, no transactions, timestamp 0, previous_hash
  \<open>"0"\<close>, hash computed locally), followed by one block for each element of the dump
  after the first; the chain is linked, so the blocks taken from the dump hang on the
  local genesis block; and the result does not depend on the first element of the dump.
\<close>

theorem dump_starts_from_local_genesis:
  "(create_chain_from_dump d dump = Inr bc \<longrightarrow>
      (\<exists>rest. chain bc = genesis_block # rest \<and>
         (\<forall>elems. py_iter dump = Inr elems \<longrightarrow> length rest = length elems - 1)) \<and>
      linked (chain bc) \<and> unconfirmed_transactions bc = []) \<and>
   (py_iter dump = Inr (first # elems) \<and> py_iter dump' = Inr (first' # elems) \<longrightarrow>
      create_chain_from_dump d dump = create_chain_from_dump d dump') \<and>
   index genesis_block = JInt 0 \<and> transactions genesis_block = JList [] \<and>
   timestamp genesis_block = JInt 0 \<and> previous_hash genesis_block = JStr ''0'' \<and>
   hash genesis_block = Some (compute_hash (genesis_block\<lparr>hash := None\<rparr>))"
proof (intro conjI impI)
  assume a: "create_chain_from_dump d dump = Inr bc"
  then obtain elems where e: "py_iter dump = Inr elems"
    and l: "dump_loop d (create_genesis_block new_blockchain) (drop 1 elems) = Inr bc"
    by (cases "py_iter dump") (auto simp: create_chain_from_dump_def)
  have g: "chain (create_genesis_block new_blockchain) = [genesis_block]"
    "unconfirmed_transactions (create_genesis_block new_blockchain) = []"
    by (simp_all add: create_genesis_block_def new_blockchain_def)
  from dump_loop_chain[OF l] g obtain rest where
    r: "chain bc = [genesis_block] @ rest" "length rest = length (drop 1 elems)"
      "linked (chain bc)" "unconfirmed_transactions bc = []"
    by auto
  from r(1) r(2) e
  show "\<exists>rest. chain bc = genesis_block # rest \<and>
         (\<forall>elems. py_iter dump = Inr elems \<longrightarrow> length rest = length elems - 1)"
    by simp
  from r show "linked (chain bc)" and "unconfirmed_transactions bc = []" by simp_all
next
  assume "py_iter dump = Inr (first # elems) \<and> py_iter dump' = Inr (first' # elems)"
  then show "create_chain_from_dump d dump = create_chain_from_dump d dump'"
    by (simp add: create_chain_from_dump_def)
qed (simp_all add: genesis_block_fields)

theorem dump_starts_from_local_genesis_witness:
  "create_chain_from_dump difficulty good_dump =
     Inr \<lparr>unconfirmed_transactions = [],
          chain = [genesis_block, example_candidate
            \<lparr>nonce := JInt 1,
             hash := Some ''0000a67697cf66cf1a5f5403f97425b8298815a74e4da0eaccaa3540922857cb''\<rparr>]\<rparr> \<and>
   py_iter good_dump = Inr [genesis_block_data, example_block_data] \<and>
   py_iter (JList [JNull, example_block_data]) = Inr [JNull, example_block_data] \<and>
   linked [genesis_block, example_candidate
            \<lparr>nonce := JInt 1,
             hash := Some ''0000a67697cf66cf1a5f5403f97425b8298815a74e4da0eaccaa3540922857cb''\<rparr>] \<and>
   create_chain_from_dump difficulty good_dump =
     create_chain_from_dump difficulty (JList [JNull, example_block_data])"
proof -
  have i: "py_iter good_dump = Inr [genesis_block_data, example_block_data]"
    "py_iter (JList [JNull, example_block_data]) = Inr [JNull, example_block_data]"
    by (simp_all add: good_dump_def)
  note t = dump_starts_from_local_genesis[of difficulty good_dump _ genesis_block_data
      "[example_block_data]" "JList [JNull, example_block_data]" JNull]
  from t[THEN conjunct1, THEN mp, OF good_dump_result]
  have "linked [genesis_block, example_candidate
            \<lparr>nonce := JInt 1,
             hash := Some ''0000a67697cf66cf1a5f5403f97425b8298815a74e4da0eaccaa3540922857cb''\<rparr>]"
    by simp
  moreover from t[THEN conjunct2, THEN conjunct1] i
  have "create_chain_from_dump difficulty good_dump =
     create_chain_from_dump difficulty (JList [JNull, example_block_data])"
    by simp
  ultimately show ?thesis using good_dump_result i by simp
qed

lemma register_keeps_chain_on_error:
  "py_getitem body ''chain'' = Inr dump \<Longrightarrow> create_chain_from_dump d dump = Inl e \<Longrightarrow>
   register_with_existing_node d blockchain 200 (Inr body) = (Inl e, blockchain)"
  by (simp add: register_with_existing_node_def)

text \<open>
  C6. If, while a peer's dump is rebuilt, some block is refused by \<open>add_block\<close> after the
  blocks before it were accepted, then \<open>create_chain_from_dump\<close> raises and returns no
  chain, not even the accepted prefix, and \<open>register_with_existing_node\<close> ends with that
  exception and leaves the node's \<open>blockchain\<close> as it was.
\<close>

theorem tampered_dump_rejected:
  assumes "py_getitem body ''chain'' = Inr dump"
    and "py_iter dump = Inr (first # accepted @ bad # rest)"
    and "dump_loop d (create_genesis_block new_blockchain) accepted = Inr bc"
    and "block_from_data bad = Inr (block, claimed)"
    and "add_block d bc block claimed = Inr (False, bc')"
  shows "create_chain_from_dump d dump = Inl TamperedDump \<and>
         register_with_existing_node d blockchain 200 (Inr body) = (Inl TamperedDump, blockchain)"
proof -
  have "dump_loop d bc (bad # rest) = Inl TamperedDump"
    using assms(4,5) by simp
  with assms(3) have "dump_loop d (create_genesis_block new_blockchain) (accepted @ bad # rest) =
      Inl TamperedDump"
    by (simp add: dump_loop_append)
  with assms(2) have "create_chain_from_dump d dump = Inl TamperedDump"
    by (simp add: create_chain_from_dump_def)
  with register_keeps_chain_on_error[OF assms(1) this] show ?thesis by simp
qed


theorem tampered_dump_rejected_witness:
  "py_getitem (JDict [(''length'', JInt 3), (''chain'', tampered_dump), (''peers'', JList [])])
     ''chain'' = Inr tampered_dump \<and>
   py_iter tampered_dump = Inr (genesis_block_data # [example_block_data] @ tampered_block_data # []) \<and>
   dump_loop difficulty (create_genesis_block new_blockchain) [example_block_data] =
     Inr \<lparr>unconfirmed_transactions = [],
          chain = [genesis_block, example_candidate
            \<lparr>nonce := JInt 1,
             hash := Some ''0000a67697cf66cf1a5f5403f97425b8298815a74e4da0eaccaa3540922857cb''\<rparr>]\<rparr> \<and>
   block_from_data tampered_block_data =
     Inr (tampered_block,
          JStr ''00005d86cce0ebd641f9d1e2ba6005a992ba3f654cf8a6de33dde7869d08c85f'') \<and>
   create_chain_from_dump difficulty tampered_dump = Inl TamperedDump \<and>
   register_with_existing_node difficulty (Ledger example_ledger) 200
     (Inr (JDict [(''length'', JInt 3), (''chain'', tampered_dump), (''peers'', JList [])])) =
     (Inl TamperedDump, Ledger example_ledger)"
proof -
  let ?bc = "\<lparr>unconfirmed_transactions = [],
          chain = [genesis_block, example_candidate
            \<lparr>nonce := JInt 1,
             hash := Some ''0000a67697cf66cf1a5f5403f97425b8298815a74e4da0eaccaa3540922857cb''\<rparr>]\<rparr>"
  have g: "py_getitem (JDict [(''length'', JInt 3), (''chain'', tampered_dump), (''peers'', JList [])])
     ''chain'' = Inr tampered_dump"
    by simp
  have i: "py_iter tampered_dump =
      Inr (genesis_block_data # [example_block_data] @ tampered_block_data # [])"
    by (simp add: tampered_dump_def)
  have c: "chain ?bc \<noteq> []" by simp
  have t: "hash (last (chain ?bc)) =
      Some ''0000a67697cf66cf1a5f5403f97425b8298815a74e4da0eaccaa3540922857cb''"
    by simp
  have a: "add_block difficulty ?bc tampered_block
      (JStr ''00005d86cce0ebd641f9d1e2ba6005a992ba3f654cf8a6de33dde7869d08c85f'') = Inr (False, ?bc)"
    by (simp add: add_block_cases[OF c t] tampered_block_digest)
  from tampered_dump_rejected[OF g i dump_loop_example tampered_block_from_data a,
      of "Ledger example_ledger"] g i dump_loop_example tampered_block_from_data
  show ?thesis by simp
qed



section \<open>Validating a chain of Block objects\<close>

text \<open>
  What \<open>check_chain_validity\<close> does to the blocks. When it returns True they are all as
  they were. When it returns False, the blocks before the first one that fails were
  approved and are as they were, the blocks after it were not looked at, and the failing
  block itself has lost its \<open>hash\<close> and nothing else: the \<open>break\<close> comes before the line
  that restores it.
\<close>

lemma check_chain_loop_frame:
  "check_chain_loop d prev blocks = Inr (result, blocks') \<Longrightarrow>
   (result \<longrightarrow> blocks' = blocks) \<and>
   (\<not> result \<longrightarrow>
      (\<exists>passed failing rest. blocks = passed @ failing # rest \<and>
         blocks' = passed @ failing\<lparr>hash := None\<rparr> # rest \<and> hash failing \<noteq> None \<and>
         check_chain_loop d prev passed = Inr (True, passed)))"
proof (induction blocks arbitrary: prev result blocks')
  case Nil
  then show ?case by simp
next
  case (Cons block others)
  from Cons.prems obtain block_hash where h: "hash block = Some block_hash"
    by (cases "hash block") auto
  show ?case
  proof (cases "\<not> (startswith block_hash (replicate d CHR ''0'') \<and>
                    block_hash = compute_hash (block\<lparr>hash := None\<rparr>)) \<or>
                JStr prev \<noteq> previous_hash block")
    case True
    with Cons.prems h have r: "result = False" "blocks' = block\<lparr>hash := None\<rparr> # others"
      by auto
    have "block # others = [] @ block # others \<and>
        blocks' = [] @ block\<lparr>hash := None\<rparr> # others \<and> hash block \<noteq> None \<and>
        check_chain_loop d prev [] = Inr (True, [])"
      using r h by simp
    then have "\<exists>passed failing rest. block # others = passed @ failing # rest \<and>
         blocks' = passed @ failing\<lparr>hash := None\<rparr> # rest \<and> hash failing \<noteq> None \<and>
         check_chain_loop d prev passed = Inr (True, passed)"
      by blast
    with r show ?thesis by simp
  next
    case False
    with Cons.prems h obtain r others' where
      rec: "check_chain_loop d block_hash others = Inr (r, others')"
      and res: "result = r" "blocks' = block # others'"
      by (cases "check_chain_loop d block_hash others") (auto split: prod.splits)
    note IH = Cons.IH[OF rec]
    show ?thesis
    proof (cases r)
      case True
      with IH res show ?thesis by simp
    next
      case r: False
      with IH obtain passed failing rest where
        p: "others = passed @ failing # rest"
          "others' = passed @ failing\<lparr>hash := None\<rparr> # rest" "hash failing \<noteq> None"
          "check_chain_loop d block_hash passed = Inr (True, passed)"
        by blast
      have "check_chain_loop d prev (block # passed) = Inr (True, block # passed)"
        using False h p(4) by auto
      with p res have "block # others = (block # passed) @ failing # rest \<and>
         blocks' = (block # passed) @ failing\<lparr>hash := None\<rparr> # rest \<and> hash failing \<noteq> None \<and>
         check_chain_loop d prev (block # passed) = Inr (True, block # passed)"
        by simp
      then have "\<exists>passed failing rest. block # others = passed @ failing # rest \<and>
         blocks' = passed @ failing\<lparr>hash := None\<rparr> # rest \<and> hash failing \<noteq> None \<and>
         check_chain_loop d prev passed = Inr (True, passed)"
        by blast
      with r res show ?thesis by simp
    qed
  qed
qed

lemma check_chain_validity_frame:
  "check_chain_validity d blocks = Inr (result, blocks') \<Longrightarrow>
   (result \<longrightarrow> blocks' = blocks) \<and>
   (\<not> result \<longrightarrow>
      (\<exists>passed failing rest. blocks = passed @ failing # rest \<and>
         blocks' = passed @ failing\<lparr>hash := None\<rparr> # rest \<and> hash failing \<noteq> None \<and>
         check_chain_validity d passed = Inr (True, passed)))"
  unfolding check_chain_validity_def by (rule check_chain_loop_frame)

text \<open>A chain that passes: the block with the genesis fields sealed at the nonce 25163.\<close>

lemma mined_genesis_valid:
  "check_chain_validity difficulty [mined_genesis] = Inr (True, [mined_genesis])"
proof -
  have "hash mined_genesis =
      Some ''000032e43be950a2ed50c2806e1eca61f37bd8a42ca18720e18bab6c7a73da34''"
    "previous_hash mined_genesis = JStr ''0''"
    by (simp_all add: mined_genesis_def genesis_fields_def)
  then show ?thesis
    by (simp add: check_chain_validity_def mined_genesis_digest zeros_difficulty)
qed

text \<open>
  C7, at its failing input. The block mined above is sealed (its hash is a valid proof),
  but alone it is no chain, since its \<open>previous_hash\<close> is not \<open>"0"\<close>.
  \<open>check_chain_validity\<close> returns False and the block, which went in with its hash, comes
  out without it.
\<close>

theorem validity_check_loses_hash:
  "is_valid_proof difficulty (example_candidate\<lparr>nonce := JInt 1\<rparr>)
     (JStr ''0000a67697cf66cf1a5f5403f97425b8298815a74e4da0eaccaa3540922857cb'') = Inr True \<and>
   check_chain_validity difficulty
     [example_candidate\<lparr>nonce := JInt 1,
        hash := Some ''0000a67697cf66cf1a5f5403f97425b8298815a74e4da0eaccaa3540922857cb''\<rparr>] =
     Inr (False, [example_candidate\<lparr>nonce := JInt 1, hash := None\<rparr>]) \<and>
   hash (example_candidate\<lparr>nonce := JInt 1, hash := None\<rparr>) \<noteq>
   hash (example_candidate\<lparr>nonce := JInt 1,
        hash := Some ''0000a67697cf66cf1a5f5403f97425b8298815a74e4da0eaccaa3540922857cb''\<rparr>)"
  by (simp add: candidate_digest_1 zeros_difficulty)
     (simp add: check_chain_validity_def example_candidate_def)

text \<open>
  C2, at its failing input. The genesis block is sealed with \<open>compute_hash\<close>, not with
  the proof-of-work search, and its digest \<open>6dbf...\<close> has no zero prefix; so
  \<open>check_chain_validity\<close> returns False on every chain that starts with it, the chain of
  one block that \<open>create_genesis_block\<close> makes included.
\<close>

theorem genesis_chain_fails_validity:
  "check_chain_validity difficulty (genesis_block # rest) =
     Inr (False, genesis_block\<lparr>hash := None\<rparr> # rest)"
  by (simp add: check_chain_validity_def genesis_block_def genesis_digest zeros_difficulty)

section \<open>What the digest depends on\<close>

text \<open>
  C5, as stated, fails: the genesis block with and without its \<open>hash\<close> attribute agrees
  on the five fields and has two different digests.
\<close>

theorem digest_covers_hash_counterexample:
  "index genesis_block = index genesis_fields \<and>
   transactions genesis_block = transactions genesis_fields \<and>
   timestamp genesis_block = timestamp genesis_fields \<and>
   previous_hash genesis_block = previous_hash genesis_fields \<and>
   nonce genesis_block = nonce genesis_fields \<and>
   compute_hash genesis_block \<noteq> compute_hash genesis_fields"
  by (simp add: genesis_digest genesis_block_digest) (simp add: genesis_block_def)

lemma quote_keys:
  "quote ''hash'' = ''\"hash\"''" "quote ''index'' = ''\"index\"''" "quote ''nonce'' = ''\"nonce\"''"
  "quote ''previous_hash'' = ''\"previous_hash\"''" "quote ''timestamp'' = ''\"timestamp\"''"
  "quote ''transactions'' = ''\"transactions\"''"
  by code_simp+

lemma digest_input:
  "compute_hash b =
     sha256 (''{'' @ (case hash b of None \<Rightarrow> [] | Some h \<Rightarrow> ''\"hash\": '' @ quote h @ '', '') @
       canonical_body (index b) (transactions b) (timestamp b) (previous_hash b) (nonce b) @
       ''}'')"
  by (cases "hash b")
     (simp_all add: compute_hash_def block_dict_def sort_items_def quote_keys canonical_body_def)

text \<open>
  C5, amended. For a block without a \<open>hash\<close> attribute \<open>compute_hash\<close> depends only on
  \<open>index\<close>, \<open>transactions\<close>, \<open>timestamp\<close>, \<open>previous_hash\<close> and \<open>nonce\<close>: it is the
  canonical digest of these five. For a block with a \<open>hash\<close> attribute it is the digest
  of the same text with the \<open>hash\<close> entry in front. So two blocks that agree on the five
  fields have the same digest when they also agree on \<open>hash\<close>: both without it, or both
  with the same value.
\<close>

theorem digest_of_present_fields:
  "(hash b = None \<longrightarrow>
      compute_hash b =
        canonical_digest (index b) (transactions b) (timestamp b) (previous_hash b) (nonce b)) \<and>
   (\<forall>h. hash b = Some h \<longrightarrow>
      compute_hash b =
        sha256 (''{\"hash\": '' @ quote h @ '', '' @
          canonical_body (index b) (transactions b) (timestamp b) (previous_hash b) (nonce b) @
          ''}'')) \<and>
   (index b = index b' \<and> transactions b = transactions b' \<and> timestamp b = timestamp b' \<and>
    previous_hash b = previous_hash b' \<and> nonce b = nonce b' \<and> hash b = hash b'
    \<longrightarrow> compute_hash b = compute_hash b')"
  by (simp add: digest_input[of b] digest_input[of b'] canonical_digest_def)

theorem digest_of_present_fields_witness:
  "hash genesis_fields = None \<and>
   compute_hash genesis_fields =
     canonical_digest (JInt 0) (JList []) (JInt 0) (JStr ''0'') (JInt 0) \<and>
   hash genesis_block =
     Some ''6dbf23122cb5046cc5c0c1b245c75f8e43c59ca8ffeac292715e5078e631d0c9'' \<and>
   compute_hash genesis_block =
     sha256 (''{\"hash\": '' @
       quote ''6dbf23122cb5046cc5c0c1b245c75f8e43c59ca8ffeac292715e5078e631d0c9'' @ '', '' @
       canonical_body (JInt 0) (JList []) (JInt 0) (JStr ''0'') (JInt 0) @ ''}'') \<and>
   index (genesis_fields\<lparr>nonce := JInt 25163\<rparr>) = index (mined_genesis\<lparr>hash := None\<rparr>) \<and>
   transactions (genesis_fields\<lparr>nonce := JInt 25163\<rparr>) =
     transactions (mined_genesis\<lparr>hash := None\<rparr>) \<and>
   timestamp (genesis_fields\<lparr>nonce := JInt 25163\<rparr>) =
     timestamp (mined_genesis\<lparr>hash := None\<rparr>) \<and>
   previous_hash (genesis_fields\<lparr>nonce := JInt 25163\<rparr>) =
     previous_hash (mined_genesis\<lparr>hash := None\<rparr>) \<and>
   nonce (genesis_fields\<lparr>nonce := JInt 25163\<rparr>) = nonce (mined_genesis\<lparr>hash := None\<rparr>) \<and>
   hash (genesis_fields\<lparr>nonce := JInt 25163\<rparr>) = hash (mined_genesis\<lparr>hash := None\<rparr>) \<and>
   compute_hash (genesis_fields\<lparr>nonce := JInt 25163\<rparr>) =
     compute_hash (mined_genesis\<lparr>hash := None\<rparr>)"
proof -
  have n: "hash genesis_fields = None" by (simp add: genesis_fields_def)
  have f: "index genesis_fields = JInt 0" "transactions genesis_fields = JList []"
    "timestamp genesis_fields = JInt 0" "previous_hash genesis_fields = JStr ''0''"
    "nonce genesis_fields = JInt 0"
    by (simp_all add: genesis_fields_def)
  from digest_of_present_fields[of genesis_fields, THEN conjunct1, THEN mp, OF n] f
  have 1: "compute_hash genesis_fields =
     canonical_digest (JInt 0) (JList []) (JInt 0) (JStr ''0'') (JInt 0)"
    by simp
  from digest_of_present_fields[of genesis_block, THEN conjunct2, THEN conjunct1, THEN spec,
      THEN mp, OF genesis_block_hash] genesis_block_fields
  have 2: "compute_hash genesis_block =
     sha256 (''{\"hash\": '' @
       quote ''6dbf23122cb5046cc5c0c1b245c75f8e43c59ca8ffeac292715e5078e631d0c9'' @ '', '' @
       canonical_body (JInt 0) (JList []) (JInt 0) (JStr ''0'') (JInt 0) @ ''}'')"
    by simp
  have a: "index (genesis_fields\<lparr>nonce := JInt 25163\<rparr>) = index (mined_genesis\<lparr>hash := None\<rparr>) \<and>
    transactions (genesis_fields\<lparr>nonce := JInt 25163\<rparr>) =
      transactions (mined_genesis\<lparr>hash := None\<rparr>) \<and>
    timestamp (genesis_fields\<lparr>nonce := JInt 25163\<rparr>) = timestamp (mined_genesis\<lparr>hash := None\<rparr>) \<and>
    previous_hash (genesis_fields\<lparr>nonce := JInt 25163\<rparr>) =
      previous_hash (mined_genesis\<lparr>hash := None\<rparr>) \<and>
    nonce (genesis_fields\<lparr>nonce := JInt 25163\<rparr>) = nonce (mined_genesis\<lparr>hash := None\<rparr>) \<and>
    hash (genesis_fields\<lparr>nonce := JInt 25163\<rparr>) = hash (mined_genesis\<lparr>hash := None\<rparr>)"
    by (simp add: mined_genesis_def genesis_fields_def)
  from digest_of_present_fields[where b = "genesis_fields\<lparr>nonce := JInt 25163\<rparr>"
      and b' = "mined_genesis\<lparr>hash := None\<rparr>", THEN conjunct2, THEN conjunct2, THEN mp, OF a]
  have 3: "compute_hash (genesis_fields\<lparr>nonce := JInt 25163\<rparr>) =
     compute_hash (mined_genesis\<lparr>hash := None\<rparr>)" .
  from n 1 genesis_block_hash 2 a 3 show ?thesis by simp
qed

end
